theory Spec2Isabelle
  imports Main
begin

section \<open>The command surface of the peer-to-peer node\<close>

text \<open>
  The module \<^verbatim>\<open>src/utils/backend.ts\<close> exports eighteen asynchronous functions. Each of
  them forwards to the backend through \<^verbatim>\<open>invoke(cmd, args)\<close> of the Tauri API, which
  returns a promise. The backend itself is not part of the module: it is a parameter of
  every definition below.
\<close>

subsection \<open>Values\<close>

text \<open>
  TypeScript types are erased at run time, so every value that crosses the command
  boundary is a JavaScript value. No function of the module inspects or computes with a
  value: numbers are carried along only.
\<close>

datatype json =
    JUndefined
  | JNull
  | JBool bool
  | JNum int
  | JStr string
  | JArr "json list"
  | JObj "(string \<times> json) list"

text \<open>The declarations of \<^verbatim>\<open>./types\<close>; the wrappers pass these values through untouched.\<close>

type_synonym PeerId = json
type_synonym GroupId = json
type_synonym GroupInfo = json
type_synonym FileInfo = json
type_synonym Message = json
type_synonym Setting = json

text \<open>An optional parameter \<^verbatim>\<open>x?: T\<close> that the caller leaves out is \<^verbatim>\<open>undefined\<close>.\<close>

fun optional :: "('a \<Rightarrow> json) \<Rightarrow> 'a option \<Rightarrow> json" where
  "optional f None = JUndefined"
| "optional f (Some x) = f x"

subsection \<open>Promises, the console and the backend\<close>

text \<open>
  How a promise ends: fulfilled with a value, rejected with an error, or never settled.
  The same three outcomes describe the body of an \<^verbatim>\<open>async\<close> function: it returns,
  it throws, or it stays suspended at an \<^verbatim>\<open>await\<close> for ever.
\<close>

datatype 'a settled = Fulfilled 'a | Rejected json | Pending

text \<open>
  The world a wrapper runs in: the state of the backend, what has been written with
  \<^verbatim>\<open>console.error\<close>, and the log of the backend invocations issued so far (command,
  arguments and how the invocation settled).
\<close>

record 'b world =
  bstate :: 'b
  console :: "json list"
  invocations :: "(string \<times> json \<times> json settled) list"

type_synonym 'b backend = "string \<Rightarrow> json \<Rightarrow> 'b \<Rightarrow> json settled \<times> 'b"

type_synonym ('b, 'a) async = "'b world \<Rightarrow> 'a settled \<times> 'b world"

definition invoke :: "'b backend \<Rightarrow> string \<Rightarrow> json \<Rightarrow> ('b, json) async" where
  "invoke be cmd args w =
     (case be cmd args (bstate w) of
        (r, b') \<Rightarrow> (r, w\<lparr>bstate := b', invocations := invocations w @ [(cmd, args, r)]\<rparr>))"

definition ret :: "'a \<Rightarrow> ('b, 'a) async" where
  "ret v w = (Fulfilled v, w)"

definition throw :: "json \<Rightarrow> ('b, 'a) async" where
  "throw err w = (Rejected err, w)"

definition console_error :: "json \<Rightarrow> ('b, json) async" where
  "console_error err w = (Fulfilled JUndefined, w\<lparr>console := console w @ [err]\<rparr>)"

text \<open>\<^verbatim>\<open>const v = await p; k(v)\<close>, and one statement after another.\<close>

definition await :: "('b, 'a) async \<Rightarrow> ('a \<Rightarrow> ('b, 'c) async) \<Rightarrow> ('b, 'c) async" where
  "await p k w =
     (case p w of
        (Fulfilled v, w') \<Rightarrow> k v w'
      | (Rejected err, w') \<Rightarrow> (Rejected err, w')
      | (Pending, w') \<Rightarrow> (Pending, w'))"

definition seq :: "('b, 'a) async \<Rightarrow> ('b, 'c) async \<Rightarrow> ('b, 'c) async" where
  "seq s k = await s (\<lambda>_. k)"

text \<open>\<^verbatim>\<open>try { body } catch (err) { handler }\<close>\<close>

definition try_catch :: "('b, 'a) async \<Rightarrow> (json \<Rightarrow> ('b, 'a) async) \<Rightarrow> ('b, 'a) async" where
  "try_catch body handler w =
     (case body w of
        (Rejected err, w') \<Rightarrow> handler err w'
      | (r, w') \<Rightarrow> (r, w'))"

text \<open>
  \<^verbatim>\<open>p.catch(handler)\<close>: a promise that is fulfilled as \<open>p\<close> is, and that runs the
  handler when \<open>p\<close> is rejected, settling as the handler does.
\<close>

definition promise_catch :: "('b, json) async \<Rightarrow> (json \<Rightarrow> ('b, json) async) \<Rightarrow> ('b, json) async" where
  "promise_catch p handler w =
     (case p w of
        (Rejected err, w') \<Rightarrow> handler err w'
      | (r, w') \<Rightarrow> (r, w'))"

subsection \<open>The wrappers\<close>

definition startListen :: "'b backend \<Rightarrow> string option \<Rightarrow> ('b, json) async" where
  "startListen be listenAddr =
     try_catch
       (await (invoke be ''start_listen'' (JObj [(''listenAddr'', optional JStr listenAddr)]))
          (\<lambda>_. ret JUndefined))
       (\<lambda>err. seq (console_error err) (throw err))"

definition getLocalPeerId :: "'b backend \<Rightarrow> ('b, json) async" where
  "getLocalPeerId be = await (invoke be ''get_local_peer_id'' JUndefined) ret"

definition stopListen :: "'b backend \<Rightarrow> ('b, json) async" where
  "stopListen be =
     try_catch
       (await (invoke be ''stop_listen'' JUndefined) (\<lambda>_. ret JUndefined))
       (\<lambda>err. seq (console_error err) (ret JUndefined))"

definition getListeners :: "'b backend \<Rightarrow> ('b, json) async" where
  "getListeners be =
     try_catch
       (await (invoke be ''get_listeners'' JUndefined) ret)
       (\<lambda>err. seq (console_error err) (throw err))"

definition getFile :: "'b backend \<Rightarrow> FileInfo \<Rightarrow> ('b, json) async" where
  "getFile be file =
     await
       (promise_catch (invoke be ''get_file'' (JObj [(''file'', file)]))
          (\<lambda>err. seq (console_error err) (ret JUndefined)))
       (\<lambda>_. ret JUndefined)"

definition startProvide :: "'b backend \<Rightarrow> string \<Rightarrow> FileInfo option \<Rightarrow> ('b, json) async" where
  "startProvide be path file =
     try_catch
       (await (invoke be ''start_provide'' (JObj [(''path'', JStr path), (''file'', optional id file)]))
          (\<lambda>resfile. ret resfile))
       (\<lambda>err. seq (console_error err) (throw err))"

definition stopProvide :: "'b backend \<Rightarrow> FileInfo \<Rightarrow> ('b, json) async" where
  "stopProvide be file =
     try_catch
       (await (invoke be ''stop_provide'' (JObj [(''file'', file)])) (\<lambda>_. ret JUndefined))
       (\<lambda>err. seq (console_error err) (throw err))"

definition loadSetting :: "'b backend \<Rightarrow> string option \<Rightarrow> ('b, json) async" where
  "loadSetting be loadPath =
     try_catch
       (await (invoke be ''load_setting'' (JObj [(''loadPath'', optional JStr loadPath)]))
          (\<lambda>setting. ret setting))
       (\<lambda>err. seq (console_error err) (throw err))"

definition saveSetting :: "'b backend \<Rightarrow> Setting \<Rightarrow> string option \<Rightarrow> ('b, json) async" where
  "saveSetting be setting savePath =
     try_catch
       (await
          (invoke be ''save_setting''
             (JObj [(''setting'', setting), (''savePath'', optional JStr savePath)]))
          (\<lambda>_. ret JUndefined))
       (\<lambda>err. seq (console_error err) (throw err))"

definition listProvide :: "'b backend \<Rightarrow> ('b, json) async" where
  "listProvide be =
     try_catch
       (await (invoke be ''list_provide'' JUndefined) (\<lambda>providers. ret providers))
       (\<lambda>err. seq (console_error err) (throw err))"

definition connectedPeers :: "'b backend \<Rightarrow> ('b, json) async" where
  "connectedPeers be =
     try_catch
       (await (invoke be ''connected_peers'' JUndefined) (\<lambda>peers. ret peers))
       (\<lambda>err. seq (console_error err) (throw err))"

definition dial :: "'b backend \<Rightarrow> string \<Rightarrow> ('b, json) async" where
  "dial be addr =
     try_catch
       (await (invoke be ''dial'' (JObj [(''addr'', JStr addr)])) (\<lambda>_. ret JUndefined))
       (\<lambda>err. seq (console_error err) (throw err))"

definition publishMessage :: "'b backend \<Rightarrow> GroupId \<Rightarrow> Message \<Rightarrow> ('b, json) async" where
  "publishMessage be groupId message =
     try_catch
       (await (invoke be ''publish_message'' (JObj [(''groupId'', groupId), (''message'', message)]))
          (\<lambda>_. ret JUndefined))
       (\<lambda>err. seq (console_error err) (throw err))"

definition subscribe :: "'b backend \<Rightarrow> GroupId \<Rightarrow> ('b, json) async" where
  "subscribe be groupId =
     try_catch
       (await (invoke be ''subscribe'' (JObj [(''groupId'', groupId)])) (\<lambda>_. ret JUndefined))
       (\<lambda>err. seq (console_error err) (throw err))"

definition getGroups :: "'b backend \<Rightarrow> ('b, json) async" where
  "getGroups be =
     await
       (invoke be ''invoke_manager''
          (JObj [(''name'', JStr ''group''), (''action'', JStr ''get_groups'')]))
       ret"

definition newGroup :: "'b backend \<Rightarrow> GroupInfo \<Rightarrow> ('b, json) async" where
  "newGroup be groupInfo = await (invoke be ''new_group'' (JObj [(''groupInfo'', groupInfo)])) ret"

definition getGroupState :: "'b backend \<Rightarrow> GroupId \<Rightarrow> ('b, json) async" where
  "getGroupState be groupId =
     await
       (invoke be ''invoke_manager''
          (JObj [(''name'', JStr ''group''), (''action'', JStr ''get_group_state''),
                 (''params'', groupId)]))
       ret"

definition getUsers :: "'b backend \<Rightarrow> ('b, json) async" where
  "getUsers be =
     await
       (invoke be ''invoke_manager''
          (JObj [(''name'', JStr ''user''), (''action'', JStr ''get_users'')]))
       ret"

text \<open>One call of an exported function, with its arguments.\<close>

datatype operation =
    StartListen "string option"
  | GetLocalPeerId
  | StopListen
  | GetListeners
  | GetFile FileInfo
  | StartProvide string "FileInfo option"
  | StopProvide FileInfo
  | LoadSetting "string option"
  | SaveSetting Setting "string option"
  | ListProvide
  | ConnectedPeers
  | Dial string
  | PublishMessage GroupId Message
  | Subscribe GroupId
  | GetGroups
  | NewGroup GroupInfo
  | GetGroupState GroupId
  | GetUsers

fun call :: "'b backend \<Rightarrow> operation \<Rightarrow> ('b, json) async" where
  "call be (StartListen listenAddr) = startListen be listenAddr"
| "call be GetLocalPeerId = getLocalPeerId be"
| "call be StopListen = stopListen be"
| "call be GetListeners = getListeners be"
| "call be (GetFile file) = getFile be file"
| "call be (StartProvide path file) = startProvide be path file"
| "call be (StopProvide file) = stopProvide be file"
| "call be (LoadSetting loadPath) = loadSetting be loadPath"
| "call be (SaveSetting setting savePath) = saveSetting be setting savePath"
| "call be ListProvide = listProvide be"
| "call be ConnectedPeers = connectedPeers be"
| "call be (Dial addr) = dial be addr"
| "call be (PublishMessage groupId message) = publishMessage be groupId message"
| "call be (Subscribe groupId) = subscribe be groupId"
| "call be GetGroups = getGroups be"
| "call be (NewGroup groupInfo) = newGroup be groupInfo"
| "call be (GetGroupState groupId) = getGroupState be groupId"
| "call be GetUsers = getUsers be"

text \<open>What one call adds to the log of invocations: the commands it issued with their
  arguments, and how each of them settled.\<close>

definition issued :: "'b backend \<Rightarrow> operation \<Rightarrow> 'b world \<Rightarrow> (string \<times> json) list" where
  "issued be op w =
     map (\<lambda>(cmd, args, r). (cmd, args))
       (drop (length (invocations w)) (invocations (snd (call be op w))))"

definition outcomes :: "'b backend \<Rightarrow> operation \<Rightarrow> 'b world \<Rightarrow> json settled list" where
  "outcomes be op w =
     map (\<lambda>(cmd, args, r). r)
       (drop (length (invocations w)) (invocations (snd (call be op w))))"

text \<open>The command and the arguments that each wrapper hands to \<^verbatim>\<open>invoke\<close>, read off
  the eighteen functions one by one.\<close>

fun request :: "operation \<Rightarrow> string \<times> json" where
  "request (StartListen listenAddr) =
     (''start_listen'', JObj [(''listenAddr'', optional JStr listenAddr)])"
| "request GetLocalPeerId = (''get_local_peer_id'', JUndefined)"
| "request StopListen = (''stop_listen'', JUndefined)"
| "request GetListeners = (''get_listeners'', JUndefined)"
| "request (GetFile file) = (''get_file'', JObj [(''file'', file)])"
| "request (StartProvide path file) =
     (''start_provide'', JObj [(''path'', JStr path), (''file'', optional id file)])"
| "request (StopProvide file) = (''stop_provide'', JObj [(''file'', file)])"
| "request (LoadSetting loadPath) =
     (''load_setting'', JObj [(''loadPath'', optional JStr loadPath)])"
| "request (SaveSetting setting savePath) =
     (''save_setting'', JObj [(''setting'', setting), (''savePath'', optional JStr savePath)])"
| "request ListProvide = (''list_provide'', JUndefined)"
| "request ConnectedPeers = (''connected_peers'', JUndefined)"
| "request (Dial addr) = (''dial'', JObj [(''addr'', JStr addr)])"
| "request (PublishMessage gid message) =
     (''publish_message'', JObj [(''groupId'', gid), (''message'', message)])"
| "request (Subscribe gid) = (''subscribe'', JObj [(''groupId'', gid)])"
| "request GetGroups =
     (''invoke_manager'', JObj [(''name'', JStr ''group''), (''action'', JStr ''get_groups'')])"
| "request (NewGroup groupInfo) = (''new_group'', JObj [(''groupInfo'', groupInfo)])"
| "request (GetGroupState gid) =
     (''invoke_manager'',
      JObj [(''name'', JStr ''group''), (''action'', JStr ''get_group_state''), (''params'', gid)])"
| "request GetUsers =
     (''invoke_manager'', JObj [(''name'', JStr ''user''), (''action'', JStr ''get_users'')])"

text \<open>How the backend answers the request of an operation, in the state the world is in.\<close>

definition answer :: "'b backend \<Rightarrow> operation \<Rightarrow> 'b world \<Rightarrow> json settled" where
  "answer be op w = fst (be (fst (request op)) (snd (request op)) (bstate w))"

text \<open>Which wrappers the error-handling claims single out.\<close>

fun rethrows :: "operation \<Rightarrow> bool" where
  "rethrows (StartListen _) = True"
| "rethrows GetListeners = True"
| "rethrows (StartProvide _ _) = True"
| "rethrows (StopProvide _) = True"
| "rethrows (LoadSetting _) = True"
| "rethrows (SaveSetting _ _) = True"
| "rethrows ListProvide = True"
| "rethrows ConnectedPeers = True"
| "rethrows (Dial _) = True"
| "rethrows (PublishMessage _ _) = True"
| "rethrows (Subscribe _) = True"
| "rethrows _ = False"

subsection \<open>Backends used in the examples\<close>

definition initial_world :: "'b \<Rightarrow> 'b world" where
  "initial_world b = \<lparr>bstate = b, console = [], invocations = []\<rparr>"

definition rejecting :: "unit backend" where
  "rejecting cmd args b = (Rejected (JStr ''unavailable''), b)"

definition listening :: "unit backend" where
  "listening cmd args b =
     (if cmd = ''start_listen'' then (Fulfilled (JStr ''/ip4/127.0.0.1/tcp/4001''), b)
      else (Fulfilled JNull, b))"

section \<open>The engine behind the commands\<close>

text \<open>
  The commands are served by the Rust half of the application, which is not among the
  source files. The parts of it that the properties below are about are modelled from
  the specification, each marked as such.
\<close>

datatype error =
    TransportError
  | NotFoundError
  | TimeoutError
  | ValidationError
  | DirectoryUnreachable

subsection \<open>SettingsStore\<close>

text \<open>Reading a property of the arguments object; a missing property is \<^verbatim>\<open>undefined\<close>.\<close>

fun args_field :: "string \<Rightarrow> json \<Rightarrow> json" where
  "args_field k (JObj kvs) = (case map_of kvs k of None \<Rightarrow> JUndefined | Some v \<Rightarrow> v)"
| "args_field k _ = JUndefined"

text \<open>
  Modelled from the spec: the persistence collaborator behind \<^verbatim>\<open>load_setting\<close> and
  \<^verbatim>\<open>save_setting\<close> (the SettingsStore of the backend is missing from the sources).
  Section 6: "opaque load/save of a structured blob keyed by an optional path, defaulting
  to a standard location". The standard location is a parameter.
\<close>

type_synonym settings_store = "string \<rightharpoonup> json"

fun setting_path :: "string \<Rightarrow> json \<Rightarrow> string option" where
  "setting_path standard_location JUndefined = Some standard_location"
| "setting_path standard_location JNull = Some standard_location"
| "setting_path standard_location (JStr p) = Some p"
| "setting_path standard_location _ = None"

text \<open>
  Modelled from the spec: the commands \<^verbatim>\<open>save_setting\<close> and \<^verbatim>\<open>load_setting\<close> of the
  backend (missing from the sources), over that collaborator. Section 6: save_setting
  takes a Setting and an optional path and returns nothing, load_setting takes an optional
  path and returns a Setting.
\<close>

definition settings_backend :: "string \<Rightarrow> settings_store backend" where
  "settings_backend standard_location cmd args store =
     (if cmd = ''save_setting'' then
        (case setting_path standard_location (args_field ''savePath'' args) of
           None \<Rightarrow> (Rejected (JStr ''invalid path''), store)
         | Some p \<Rightarrow> (Fulfilled JNull, store(p \<mapsto> args_field ''setting'' args)))
      else if cmd = ''load_setting'' then
        (case setting_path standard_location (args_field ''loadPath'' args) of
           None \<Rightarrow> (Rejected (JStr ''invalid path''), store)
         | Some p \<Rightarrow>
             (case store p of
                None \<Rightarrow> (Rejected (JStr ''no setting at this path''), store)
              | Some s \<Rightarrow> (Fulfilled s, store)))
      else (Rejected (JStr ''unknown command''), store))"

subsection \<open>ContentDirectory\<close>

text \<open>
  Modelled from the spec: the data model of section 3 for files and provider records (the
  backend's declarations are missing from the sources).
\<close>

type_synonym bytes = "char list"

record FileDescriptor =
  contentKey :: string
  displayName :: string
  size_bytes :: nat
  mediaType :: string
  localPath :: "string option"

record ProviderRecord =
  providedKey :: string
  provider :: PeerId
  expiry :: nat

text \<open>
  Modelled from the spec: the ContentDirectory of section 4.2 (missing from the
  sources), as the index all peers publish into. A record lives for a bounded time to
  live after its announcement; a re-announcement is an announcement again. The order in
  which the directory returns providers is its own and is not specified: here it is the
  order of its records. Whether the directory can be reached is a condition of the
  network, which changes under the node.
\<close>

record ContentDirectory =
  records :: "ProviderRecord list"
  clock :: nat
  ttl :: nat
  reachable :: bool

definition empty_directory :: "nat \<Rightarrow> ContentDirectory" where
  "empty_directory t = \<lparr>records = [], clock = 0, ttl = t, reachable = True\<rparr>"

definition same_record :: "string \<Rightarrow> PeerId \<Rightarrow> ProviderRecord \<Rightarrow> bool" where
  "same_record k p r = (providedKey r = k \<and> provider r = p)"

definition announce :: "PeerId \<Rightarrow> FileDescriptor \<Rightarrow> ContentDirectory \<Rightarrow> ProviderRecord \<times> ContentDirectory" where
  "announce p fd d =
     (let r = \<lparr>providedKey = contentKey fd, provider = p, expiry = clock d + ttl d\<rparr>
      in (r, d\<lparr>records := filter (\<lambda>x. \<not> same_record (contentKey fd) p x) (records d) @ [r]\<rparr>))"

text \<open>Withdrawal removes the record on a best-effort basis: the removal may not reach
  the index, and the record then lapses with its time to live.\<close>

definition withdraw :: "PeerId \<Rightarrow> FileDescriptor \<Rightarrow> bool \<Rightarrow> ContentDirectory \<Rightarrow> ContentDirectory" where
  "withdraw p fd removed d =
     (if removed then d\<lparr>records := filter (\<lambda>x. \<not> same_record (contentKey fd) p x) (records d)\<rparr>
      else d)"

text \<open>
  Modelled from the spec: \<^verbatim>\<open>findProviders\<close> of section 4.2 (missing from the sources).
  "A lookup timing out with zero providers is not an error, it is an empty result";
  "directory unreachable" is "surfaced as an error". Records past their expiry are not
  returned.
\<close>

definition findProviders :: "ContentDirectory \<Rightarrow> string \<Rightarrow> error + PeerId list" where
  "findProviders d k =
     (if \<not> reachable d then Inl DirectoryUnreachable
      else Inr (map provider (filter (\<lambda>r. providedKey r = k \<and> clock d < expiry r) (records d))))"

datatype directory_event =
    Announce PeerId FileDescriptor
  | Withdraw PeerId FileDescriptor bool
  | Elapse nat
  | Connectivity bool

fun directory_step :: "ContentDirectory \<Rightarrow> directory_event \<Rightarrow> ContentDirectory" where
  "directory_step d (Announce p fd) = snd (announce p fd d)"
| "directory_step d (Withdraw p fd removed) = withdraw p fd removed d"
| "directory_step d (Elapse n) = d\<lparr>clock := clock d + n\<rparr>"
| "directory_step d (Connectivity up) = d\<lparr>reachable := up\<rparr>"

fun run_directory :: "ContentDirectory \<Rightarrow> directory_event list \<Rightarrow> ContentDirectory" where
  "run_directory d [] = d"
| "run_directory d (e # es) = run_directory (directory_step d e) es"

fun announces :: "string \<Rightarrow> directory_event \<Rightarrow> bool" where
  "announces k (Announce p fd) = (contentKey fd = k)"
| "announces k _ = False"

definition never_announced :: "string \<Rightarrow> directory_event list \<Rightarrow> bool" where
  "never_announced k es = (\<not> list_ex (announces k) es)"

subsection \<open>FileTransferService\<close>

text \<open>
  Modelled from the spec: the two roles of section 4.3 (missing from the sources). A
  peer that can be reached answers a request for a content key it has registered with
  the descriptor and the bytes it streams, and a request for an unknown key with "not
  found". A peer that cannot be dialled is absent from the network.
\<close>

record peer_node =
  registered :: "(FileDescriptor \<times> bytes) list"

type_synonym network = "PeerId \<rightharpoonup> peer_node"

definition serve :: "peer_node \<Rightarrow> string \<Rightarrow> error + FileDescriptor \<times> bytes" where
  "serve node k =
     (case find (\<lambda>(fd, content). contentKey fd = k) (registered node) of
        None \<Rightarrow> Inl NotFoundError
      | Some (fd, content) \<Rightarrow> Inr (fd, content))"

text \<open>One attempt of the client at one provider: dial, request, and validate the
  received byte count against the advertised size.\<close>

definition attempt :: "network \<Rightarrow> PeerId \<Rightarrow> string \<Rightarrow> error + FileDescriptor \<times> bytes" where
  "attempt net p k =
     (case net p of
        None \<Rightarrow> Inl TransportError
      | Some node \<Rightarrow>
          (case serve node k of
             Inl e \<Rightarrow> Inl e
           | Inr (fd, content) \<Rightarrow>
               if length content = size_bytes fd then Inr (fd, content) else Inl ValidationError))"

text \<open>The linear fallback. The result comes with the providers that were attempted, in
  the order of the attempts.\<close>

fun try_providers ::
  "network \<Rightarrow> string \<Rightarrow> PeerId list \<Rightarrow> PeerId list \<times> (error + FileDescriptor \<times> bytes)" where
  "try_providers net k [] = ([], Inl NotFoundError)"
| "try_providers net k (p # ps) =
     (case attempt net p k of
        Inr got \<Rightarrow> ([p], Inr got)
      | Inl e \<Rightarrow> (case try_providers net k ps of (tried, r) \<Rightarrow> (p # tried, r)))"

text \<open>
  Modelled from the spec: \<^verbatim>\<open>fetch\<close> of section 4.3 (missing from the sources). It
  "(1) calls ContentDirectory.findProviders, (2) attempts providers in directory order,
  (3) on stream success, validates received byte count against the advertised size, else
  treats as a failed attempt and advances to the next provider, (4) fails only after all
  known providers have been exhausted or a caller-specified provider budget/timeout
  elapses".
\<close>

text \<open>The caller may give a provider budget; without one every provider is tried.\<close>

definition fetch ::
  "network \<Rightarrow> ContentDirectory \<Rightarrow> nat option \<Rightarrow> string \<Rightarrow>
     PeerId list \<times> (error + FileDescriptor \<times> bytes)" where
  "fetch net d budget k =
     (case findProviders d k of
        Inl e \<Rightarrow> ([], Inl e)
      | Inr ps \<Rightarrow>
          try_providers net k (case budget of None \<Rightarrow> ps | Some n \<Rightarrow> take n ps))"



subsection \<open>GroupRegistry\<close>

text \<open>
  Modelled from the spec: the group data of section 3 and the GroupRegistry of sections
  4.4 and 4.5 (missing from the sources). A delivered message is applied at most once
  per (sender, sequence); a message for a group the registry does not know is dropped.
\<close>

record GroupMessage =
  sender :: PeerId
  groupId :: GroupId
  payload :: json
  timestamp :: nat
  sequence :: nat

record GroupState =
  members :: "PeerId list"
  messages :: "GroupMessage list"

record GroupRegistry =
  groups :: "GroupId \<rightharpoonup> GroupInfo"
  states :: "GroupId \<rightharpoonup> GroupState"

datatype registry_error = NotFound

definition empty_registry :: GroupRegistry where
  "empty_registry = \<lparr>groups = Map.empty, states = Map.empty\<rparr>"

definition message_key :: "GroupMessage \<Rightarrow> PeerId \<times> nat" where
  "message_key m = (sender m, sequence m)"

definition createGroup :: "GroupId \<Rightarrow> GroupInfo \<Rightarrow> GroupRegistry \<Rightarrow> GroupRegistry" where
  "createGroup g info reg =
     (case states reg g of
        Some _ \<Rightarrow> reg
      | None \<Rightarrow>
          reg\<lparr>groups := (groups reg)(g \<mapsto> info),
              states := (states reg)(g \<mapsto> \<lparr>members = [], messages = []\<rparr>)\<rparr>)"

definition announce_member :: "GroupId \<Rightarrow> PeerId \<Rightarrow> GroupRegistry \<Rightarrow> GroupRegistry" where
  "announce_member g p reg =
     (case states reg g of
        None \<Rightarrow> reg
      | Some st \<Rightarrow>
          if p \<in> set (members st) then reg
          else reg\<lparr>states := (states reg)(g \<mapsto> st\<lparr>members := members st @ [p]\<rparr>)\<rparr>)"

text \<open>
  Modelled from the spec: the application of a delivered message by the GroupRegistry
  (missing from the sources). Section 4.4: "idempotent application by GroupRegistry, keyed
  on (sender, sequence)"; section 4.5: "a message for an unknown GroupId is dropped".
\<close>

definition apply_message :: "GroupMessage \<Rightarrow> GroupRegistry \<Rightarrow> GroupRegistry" where
  "apply_message m reg =
     (case states reg (groupId m) of
        None \<Rightarrow> reg
      | Some st \<Rightarrow>
          if message_key m \<in> set (map message_key (messages st)) then reg
          else reg\<lparr>states := (states reg)(groupId m \<mapsto> st\<lparr>messages := messages st @ [m]\<rparr>)\<rparr>)"

definition getGroupState_registry :: "GroupRegistry \<Rightarrow> GroupId \<Rightarrow> registry_error + GroupState" where
  "getGroupState_registry reg g =
     (case states reg g of None \<Rightarrow> Inl NotFound | Some st \<Rightarrow> Inr st)"

datatype registry_event =
    Created GroupId GroupInfo
  | MemberAnnounced GroupId PeerId
  | Delivered GroupMessage

fun registry_step :: "GroupRegistry \<Rightarrow> registry_event \<Rightarrow> GroupRegistry" where
  "registry_step reg (Created g info) = createGroup g info reg"
| "registry_step reg (MemberAnnounced g p) = announce_member g p reg"
| "registry_step reg (Delivered m) = apply_message m reg"

fun run_registry :: "GroupRegistry \<Rightarrow> registry_event list \<Rightarrow> GroupRegistry" where
  "run_registry reg [] = reg"
| "run_registry reg (e # es) = run_registry (registry_step reg e) es"

definition copies :: "GroupMessage \<Rightarrow> GroupState \<Rightarrow> nat" where
  "copies m st = length (filter (\<lambda>x. message_key x = message_key m) (messages st))"

subsection \<open>A small network used in the examples\<close>

definition peerA :: PeerId where
  "peerA = JStr ''A''"


definition fileF :: FileDescriptor where
  "fileF = \<lparr>contentKey = ''abc123'', displayName = ''notes.txt'', size_bytes = 4,
            mediaType = ''text/plain'', localPath = Some ''/srv/notes.txt''\<rparr>"



definition groupG :: GroupId where
  "groupG = JStr ''G''"

definition hello :: GroupMessage where
  "hello = \<lparr>sender = peerA, groupId = groupG, payload = JStr ''hello'', timestamp = 0,
            sequence = 1\<rparr>"

section \<open>Properties of the command surface\<close>

subsection \<open>The shapes the wrappers are written in\<close>

lemmas combinator_defs = invoke_def ret_def throw_def console_error_def await_def seq_def
  try_catch_def promise_catch_def

lemmas wrapper_defs = startListen_def getLocalPeerId_def stopListen_def getListeners_def
  getFile_def startProvide_def stopProvide_def loadSetting_def saveSetting_def listProvide_def
  connectedPeers_def dial_def publishMessage_def subscribe_def getGroups_def newGroup_def
  getGroupState_def getUsers_def

text \<open>Log and rethrow, around a body that returns a function of the awaited value.\<close>

lemma try_rethrow:
  "try_catch (await (invoke be c a) (\<lambda>v. ret (f v))) (\<lambda>err. seq (console_error err) (throw err)) w =
     (case be c a (bstate w) of
        (r, b') \<Rightarrow>
          (case r of
             Fulfilled v \<Rightarrow>
               (Fulfilled (f v), w\<lparr>bstate := b', invocations := invocations w @ [(c, a, r)]\<rparr>)
           | Rejected e \<Rightarrow>
               (Rejected e, w\<lparr>bstate := b', console := console w @ [e],
                              invocations := invocations w @ [(c, a, r)]\<rparr>)
           | Pending \<Rightarrow>
               (Pending, w\<lparr>bstate := b', invocations := invocations w @ [(c, a, r)]\<rparr>)))"
  by (simp add: combinator_defs split: prod.splits settled.splits)

text \<open>\<^verbatim>\<open>return await p\<close> settles as \<open>p\<close> does.\<close>

lemma pass_through: "await (invoke be c a) ret = invoke be c a"
  by (rule ext) (simp add: await_def ret_def split: prod.splits settled.splits)

text \<open>Log and rethrow, around a body that returns the awaited value itself.\<close>

lemma try_rethrow_ret:
  "try_catch (invoke be c a) (\<lambda>err. seq (console_error err) (throw err)) w =
     (case be c a (bstate w) of
        (r, b') \<Rightarrow>
          (case r of
             Rejected e \<Rightarrow>
               (Rejected e, w\<lparr>bstate := b', console := console w @ [e],
                              invocations := invocations w @ [(c, a, r)]\<rparr>)
           | _ \<Rightarrow> (r, w\<lparr>bstate := b', invocations := invocations w @ [(c, a, r)]\<rparr>)))"
  by (simp add: combinator_defs split: prod.splits settled.splits)

text \<open>Log only: the handler of \<^verbatim>\<open>stopListen\<close>.\<close>

lemma try_swallow:
  "try_catch (await (invoke be c a) (\<lambda>v. ret (f v))) (\<lambda>err. seq (console_error err) (ret JUndefined)) w =
     (case be c a (bstate w) of
        (r, b') \<Rightarrow>
          (case r of
             Fulfilled v \<Rightarrow>
               (Fulfilled (f v), w\<lparr>bstate := b', invocations := invocations w @ [(c, a, r)]\<rparr>)
           | Rejected e \<Rightarrow>
               (Fulfilled JUndefined, w\<lparr>bstate := b', console := console w @ [e],
                                        invocations := invocations w @ [(c, a, r)]\<rparr>)
           | Pending \<Rightarrow>
               (Pending, w\<lparr>bstate := b', invocations := invocations w @ [(c, a, r)]\<rparr>)))"
  by (simp add: combinator_defs split: prod.splits settled.splits)

text \<open>Log only, on the promise: the handler of \<^verbatim>\<open>getFile\<close>.\<close>

lemma catch_swallow:
  "await (promise_catch (invoke be c a) (\<lambda>err. seq (console_error err) (ret JUndefined)))
      (\<lambda>_. ret JUndefined) w =
     (case be c a (bstate w) of
        (r, b') \<Rightarrow>
          (case r of
             Fulfilled v \<Rightarrow>
               (Fulfilled JUndefined, w\<lparr>bstate := b', invocations := invocations w @ [(c, a, r)]\<rparr>)
           | Rejected e \<Rightarrow>
               (Fulfilled JUndefined, w\<lparr>bstate := b', console := console w @ [e],
                                        invocations := invocations w @ [(c, a, r)]\<rparr>)
           | Pending \<Rightarrow>
               (Pending, w\<lparr>bstate := b', invocations := invocations w @ [(c, a, r)]\<rparr>)))"
  by (simp add: combinator_defs split: prod.splits settled.splits)

text \<open>Each of these shapes adds one entry to the log of invocations.\<close>

lemma log_invoke:
  "invocations (snd (invoke be c a w)) = invocations w @ [(c, a, fst (be c a (bstate w)))]"
  by (simp add: invoke_def split: prod.splits)

lemma log_try_rethrow:
  "invocations (snd (try_catch (await (invoke be c a) (\<lambda>v. ret (f v)))
       (\<lambda>err. seq (console_error err) (throw err)) w)) =
     invocations w @ [(c, a, fst (be c a (bstate w)))]"
  by (simp add: try_rethrow split: prod.splits settled.splits)

lemma log_try_rethrow_ret:
  "invocations (snd (try_catch (invoke be c a) (\<lambda>err. seq (console_error err) (throw err)) w)) =
     invocations w @ [(c, a, fst (be c a (bstate w)))]"
  by (simp add: try_rethrow_ret split: prod.splits settled.splits)

lemma log_try_swallow:
  "invocations (snd (try_catch (await (invoke be c a) (\<lambda>v. ret (f v)))
       (\<lambda>err. seq (console_error err) (ret JUndefined)) w)) =
     invocations w @ [(c, a, fst (be c a (bstate w)))]"
  by (simp add: try_swallow split: prod.splits settled.splits)

lemma log_catch_swallow:
  "invocations (snd (await (promise_catch (invoke be c a)
       (\<lambda>err. seq (console_error err) (ret JUndefined))) (\<lambda>_. ret JUndefined) w)) =
     invocations w @ [(c, a, fst (be c a (bstate w)))]"
  by (simp add: catch_swallow split: prod.splits settled.splits)

lemmas log_simps = log_invoke log_try_rethrow log_try_rethrow_ret log_try_swallow
  log_catch_swallow pass_through

lemmas template_simps = try_rethrow try_rethrow_ret try_swallow catch_swallow pass_through
  invoke_def

subsection \<open>What \<^verbatim>\<open>startListen\<close> returns\<close>

lemma startListen_result:
  "fst (startListen be listenAddr w) =
     (case fst (be ''start_listen'' (JObj [(''listenAddr'', optional JStr listenAddr)]) (bstate w)) of
        Fulfilled address \<Rightarrow> Fulfilled JUndefined
      | Rejected e \<Rightarrow> Rejected e
      | Pending \<Rightarrow> Pending)"
  by (simp add: startListen_def template_simps split: prod.splits settled.splits)

text \<open>
  C1. The claim: the address that the backend accepts for \<^verbatim>\<open>start_listen\<close> is the result
  of \<^verbatim>\<open>startListen\<close>. The wrapper awaits the address and has no \<^verbatim>\<open>return\<close>: on a
  backend that accepts with the address \<^verbatim>\<open>/ip4/127.0.0.1/tcp/4001\<close>, the call is
  fulfilled with \<^verbatim>\<open>undefined\<close>.
\<close>

theorem startListen_drops_address:
  "outcomes listening (StartListen None) (initial_world ()) =
     [Fulfilled (JStr ''/ip4/127.0.0.1/tcp/4001'')] \<and>
   fst (startListen listening None (initial_world ())) = Fulfilled JUndefined"
  by (simp add: outcomes_def startListen_def template_simps listening_def initial_world_def)

subsection \<open>Rejections\<close>

text \<open>Every wrapper hands its request to the backend, once, and the log records the
  answer of the backend to it.\<close>

lemma call_issues_request: "issued be op w = [request op]"
  by (cases op) (simp_all add: issued_def wrapper_defs log_simps)

lemma call_records_answer: "outcomes be op w = [answer be op w]"
  by (cases op) (simp_all add: outcomes_def answer_def wrapper_defs log_simps)

text \<open>
  C9. Each of the eleven wrappers that log and rethrow (startListen, getListeners,
  startProvide, stopProvide, loadSetting, saveSetting, listProvide, connectedPeers, dial,
  publishMessage, subscribe): when the backend rejects the request of the wrapper with an
  error, the wrapper has issued that request, it rejects with exactly that error, and it
  has written that error to the console.
\<close>

theorem rejection_rethrown:
  assumes "rethrows op" and "answer be op w = Rejected e"
  shows "issued be op w = [request op] \<and>
    fst (call be op w) = Rejected e \<and>
    console (snd (call be op w)) = console w @ [e]"
proof -
  from assms have "fst (call be op w) = Rejected e \<and> console (snd (call be op w)) = console w @ [e]"
    by (cases op)
       (auto simp: answer_def wrapper_defs template_simps split: prod.splits settled.splits)
  with call_issues_request [of be op w] show ?thesis
    by simp
qed

theorem rejection_rethrown_witness:
  "rethrows (Dial ''/ip4/10.0.0.7/tcp/4001'') \<and>
   answer rejecting (Dial ''/ip4/10.0.0.7/tcp/4001'') (initial_world ()) =
     Rejected (JStr ''unavailable'') \<and>
   call rejecting (Dial ''/ip4/10.0.0.7/tcp/4001'') (initial_world ()) =
     (Rejected (JStr ''unavailable''),
      \<lparr>bstate = (), console = [JStr ''unavailable''],
       invocations = [(''dial'', JObj [(''addr'', JStr ''/ip4/10.0.0.7/tcp/4001'')],
                       Rejected (JStr ''unavailable''))]\<rparr>) \<and>
   fst (call rejecting (StartListen None) (initial_world ())) = Rejected (JStr ''unavailable'') \<and>
   fst (call rejecting GetListeners (initial_world ())) = Rejected (JStr ''unavailable'') \<and>
   fst (call rejecting (StartProvide ''/srv/notes.txt'' None) (initial_world ())) =
     Rejected (JStr ''unavailable'') \<and>
   fst (call rejecting (StopProvide JNull) (initial_world ())) = Rejected (JStr ''unavailable'') \<and>
   fst (call rejecting (LoadSetting None) (initial_world ())) = Rejected (JStr ''unavailable'') \<and>
   fst (call rejecting (SaveSetting JNull None) (initial_world ())) =
     Rejected (JStr ''unavailable'') \<and>
   fst (call rejecting ListProvide (initial_world ())) = Rejected (JStr ''unavailable'') \<and>
   fst (call rejecting ConnectedPeers (initial_world ())) = Rejected (JStr ''unavailable'') \<and>
   fst (call rejecting (PublishMessage (JStr ''G'') (JStr ''hello'')) (initial_world ())) =
     Rejected (JStr ''unavailable'') \<and>
   fst (call rejecting (Subscribe (JStr ''G'')) (initial_world ())) =
     Rejected (JStr ''unavailable'')"
proof -
  have a: "answer rejecting op (initial_world ()) = Rejected (JStr ''unavailable'')" for op
    by (simp add: answer_def rejecting_def)
  have r: "rethrows (Dial ''/ip4/10.0.0.7/tcp/4001'')"
    by simp
  from rejection_rethrown [OF r a]
  have "call rejecting (Dial ''/ip4/10.0.0.7/tcp/4001'') (initial_world ()) =
     (Rejected (JStr ''unavailable''),
      \<lparr>bstate = (), console = [JStr ''unavailable''],
       invocations = [(''dial'', JObj [(''addr'', JStr ''/ip4/10.0.0.7/tcp/4001'')],
                       Rejected (JStr ''unavailable''))]\<rparr>)"
    by (simp add: dial_def template_simps rejecting_def initial_world_def)
  moreover have "fst (call rejecting (StartListen None) (initial_world ())) =
      Rejected (JStr ''unavailable'')"
    using rejection_rethrown [OF _ a, of "StartListen None"] by simp
  moreover have "fst (call rejecting GetListeners (initial_world ())) =
      Rejected (JStr ''unavailable'')"
    using rejection_rethrown [OF _ a, of GetListeners] by simp
  moreover have "fst (call rejecting (StartProvide ''/srv/notes.txt'' None) (initial_world ())) =
      Rejected (JStr ''unavailable'')"
    using rejection_rethrown [OF _ a, of "StartProvide ''/srv/notes.txt'' None"] by simp
  moreover have "fst (call rejecting (StopProvide JNull) (initial_world ())) =
      Rejected (JStr ''unavailable'')"
    using rejection_rethrown [OF _ a, of "StopProvide JNull"] by simp
  moreover have "fst (call rejecting (LoadSetting None) (initial_world ())) =
      Rejected (JStr ''unavailable'')"
    using rejection_rethrown [OF _ a, of "LoadSetting None"] by simp
  moreover have "fst (call rejecting (SaveSetting JNull None) (initial_world ())) =
      Rejected (JStr ''unavailable'')"
    using rejection_rethrown [OF _ a, of "SaveSetting JNull None"] by simp
  moreover have "fst (call rejecting ListProvide (initial_world ())) =
      Rejected (JStr ''unavailable'')"
    using rejection_rethrown [OF _ a, of ListProvide] by simp
  moreover have "fst (call rejecting ConnectedPeers (initial_world ())) =
      Rejected (JStr ''unavailable'')"
    using rejection_rethrown [OF _ a, of ConnectedPeers] by simp
  moreover have "fst (call rejecting (PublishMessage (JStr ''G'') (JStr ''hello'')) (initial_world ())) =
      Rejected (JStr ''unavailable'')"
    using rejection_rethrown [OF _ a, of "PublishMessage (JStr ''G'') (JStr ''hello'')"] by simp
  moreover have "fst (call rejecting (Subscribe (JStr ''G'')) (initial_world ())) =
      Rejected (JStr ''unavailable'')"
    using rejection_rethrown [OF _ a, of "Subscribe (JStr ''G'')"] by simp
  ultimately show ?thesis
    using r a by simp
qed

text \<open>The sixteen wrappers other than \<^verbatim>\<open>stopListen\<close> and \<^verbatim>\<open>getFile\<close> pass a rejection
  of their request on to the caller.\<close>

lemma rejection_propagated:
  assumes "op \<noteq> StopListen" and "\<forall>file. op \<noteq> GetFile file" and "answer be op w = Rejected e"
  shows "fst (call be op w) = Rejected e"
  using assms
  by (cases op)
     (auto simp: answer_def wrapper_defs template_simps split: prod.splits settled.splits)

text \<open>\<^verbatim>\<open>getFile\<close> and \<^verbatim>\<open>stopListen\<close> do not: the handler of each writes the error to
  the console and does not throw, so the promise is fulfilled with \<^verbatim>\<open>undefined\<close>.\<close>

lemma getFile_swallows:
  assumes "answer be (GetFile file) w = Rejected e"
  shows "fst (getFile be file w) = Fulfilled JUndefined \<and>
    console (snd (getFile be file w)) = console w @ [e]"
  using assms
  by (auto simp: answer_def getFile_def template_simps split: prod.splits settled.splits)

lemma stopListen_swallows:
  assumes "answer be StopListen w = Rejected e"
  shows "fst (stopListen be w) = Fulfilled JUndefined \<and>
    console (snd (stopListen be w)) = console w @ [e]"
  using assms
  by (auto simp: answer_def stopListen_def template_simps split: prod.splits settled.splits)

text \<open>
  C2. The claim: whenever the backend invocation of an operation is rejected, the promise
  of the operation is rejected as well, for stopListen and getFile in particular. On a
  backend that rejects \<^verbatim>\<open>get_file\<close> and \<^verbatim>\<open>stop_listen\<close> with the error
  \<^verbatim>\<open>unavailable\<close>, both wrappers issue their request, write the error to the console
  and are fulfilled with \<^verbatim>\<open>undefined\<close>.
\<close>

theorem swallowed_rejections:
  "answer rejecting (GetFile (JObj [(''name'', JStr ''a.txt'')])) (initial_world ()) =
     Rejected (JStr ''unavailable'') \<and>
   call rejecting (GetFile (JObj [(''name'', JStr ''a.txt'')])) (initial_world ()) =
     (Fulfilled JUndefined,
      \<lparr>bstate = (), console = [JStr ''unavailable''],
       invocations = [(''get_file'', JObj [(''file'', JObj [(''name'', JStr ''a.txt'')])],
                       Rejected (JStr ''unavailable''))]\<rparr>) \<and>
   answer rejecting StopListen (initial_world ()) = Rejected (JStr ''unavailable'') \<and>
   call rejecting StopListen (initial_world ()) =
     (Fulfilled JUndefined,
      \<lparr>bstate = (), console = [JStr ''unavailable''],
       invocations = [(''stop_listen'', JUndefined, Rejected (JStr ''unavailable''))]\<rparr>)"
  by (simp add: answer_def getFile_def stopListen_def template_simps rejecting_def
      initial_world_def)

subsection \<open>One invocation for each call\<close>

lemma call_log:
  "\<exists>c a r. invocations (snd (call be op w)) = invocations w @ [(c, a, r)] \<and>
     be c a (bstate w) = (r, bstate (snd (call be op w)))"
  by (cases op)
     (auto simp: wrapper_defs template_simps split: prod.splits settled.splits)

text \<open>
  C4. Every call of a wrapper, dial included, issues exactly one backend invocation,
  however that invocation settles: the log grows by one entry, and the backend is left in
  the state that one invocation put it in.
\<close>

theorem one_invocation_per_call:
  "length (issued be op w) = 1 \<and>
   issued be (Dial addr) w = [(''dial'', JObj [(''addr'', JStr addr)])] \<and>
   (\<exists>c a r. invocations (snd (call be op w)) = invocations w @ [(c, a, r)] \<and>
     be c a (bstate w) = (r, bstate (snd (call be op w))))"
proof -
  from call_log [of be op w] obtain c a r
    where l: "invocations (snd (call be op w)) = invocations w @ [(c, a, r)]"
    by blast
  then have "length (issued be op w) = 1"
    by (simp add: issued_def)
  moreover have "issued be (Dial addr) w = [(''dial'', JObj [(''addr'', JStr addr)])]"
    by (simp add: issued_def dial_def log_simps)
  ultimately show ?thesis
    using call_log [of be op w] by blast
qed

subsection \<open>Which command each wrapper issues\<close>

text \<open>
  C3. getGroups, getGroupState and getUsers all issue the command \<^verbatim>\<open>invoke_manager\<close>,
  with a name string and an action string, and getGroupState passes the group identifier
  as \<^verbatim>\<open>params\<close>; each of the other fifteen wrappers issues a command of its own.
\<close>

theorem registry_reads_dispatch:
  "issued be GetGroups w =
     [(''invoke_manager'', JObj [(''name'', JStr ''group''), (''action'', JStr ''get_groups'')])] \<and>
   issued be (GetGroupState g) w =
     [(''invoke_manager'',
       JObj [(''name'', JStr ''group''), (''action'', JStr ''get_group_state''),
             (''params'', g)])] \<and>
   issued be GetUsers w =
     [(''invoke_manager'', JObj [(''name'', JStr ''user''), (''action'', JStr ''get_users'')])] \<and>
   map fst (issued be (StartListen listenAddr) w) = [''start_listen''] \<and>
   map fst (issued be GetLocalPeerId w) = [''get_local_peer_id''] \<and>
   map fst (issued be StopListen w) = [''stop_listen''] \<and>
   map fst (issued be GetListeners w) = [''get_listeners''] \<and>
   map fst (issued be (GetFile file) w) = [''get_file''] \<and>
   map fst (issued be (StartProvide path pfile) w) = [''start_provide''] \<and>
   map fst (issued be (StopProvide file) w) = [''stop_provide''] \<and>
   map fst (issued be (LoadSetting loadPath) w) = [''load_setting''] \<and>
   map fst (issued be (SaveSetting setting savePath) w) = [''save_setting''] \<and>
   map fst (issued be ListProvide w) = [''list_provide''] \<and>
   map fst (issued be ConnectedPeers w) = [''connected_peers''] \<and>
   map fst (issued be (Dial addr) w) = [''dial''] \<and>
   map fst (issued be (PublishMessage g message) w) = [''publish_message''] \<and>
   map fst (issued be (Subscribe g) w) = [''subscribe''] \<and>
   map fst (issued be (NewGroup groupInfo) w) = [''new_group'']"
  by (simp add: issued_def wrapper_defs log_simps)

subsection \<open>The pass-throughs\<close>

text \<open>
  C10. getLocalPeerId and newGroup are each equal to the single direct invocation of
  \<^verbatim>\<open>get_local_peer_id\<close> and of \<^verbatim>\<open>new_group\<close>: the value is forwarded as it is, a
  rejection is passed on, and nothing is written to the console.
\<close>

theorem pass_throughs:
  "getLocalPeerId be = invoke be ''get_local_peer_id'' JUndefined \<and>
   newGroup be groupInfo = invoke be ''new_group'' (JObj [(''groupInfo'', groupInfo)]) \<and>
   console (snd (getLocalPeerId be w)) = console w \<and>
   console (snd (newGroup be groupInfo w)) = console w"
  by (simp add: getLocalPeerId_def newGroup_def pass_through invoke_def split: prod.splits)

section \<open>Properties of the engine\<close>

subsection \<open>Settings\<close>

text \<open>
  C5. Whatever setting is saved with no path override is the setting that a load with no
  path override returns next, through the two wrappers.
\<close>

theorem save_then_load:
  "fst (saveSetting (settings_backend standard_location) s None w) = Fulfilled JUndefined \<and>
   fst (loadSetting (settings_backend standard_location) None
          (snd (saveSetting (settings_backend standard_location) s None w))) = Fulfilled s"
  by (simp add: saveSetting_def loadSetting_def template_simps settings_backend_def)

subsection \<open>Looking up a key that nobody announced\<close>

lemma step_keeps_key_absent:
  assumes "\<not> announces k e" and "\<forall>r\<in>set (records d). providedKey r \<noteq> k"
  shows "\<forall>r\<in>set (records (directory_step d e)). providedKey r \<noteq> k"
  using assms by (cases e) (auto simp: announce_def withdraw_def Let_def)

lemma run_keeps_key_absent:
  assumes "never_announced k es" and "\<forall>r\<in>set (records d). providedKey r \<noteq> k"
  shows "\<forall>r\<in>set (records (run_directory d es)). providedKey r \<noteq> k"
  using assms
proof (induction es arbitrary: d)
  case Nil
  then show ?case by simp
next
  case (Cons e es)
  from Cons.prems(1) have e: "\<not> announces k e" and es: "never_announced k es"
    by (simp_all add: never_announced_def)
  from step_keeps_key_absent [OF e Cons.prems(2)]
  have "\<forall>r\<in>set (records (directory_step d e)). providedKey r \<noteq> k" .
  from Cons.IH [OF es this] show ?case by simp
qed

lemma findProviders_absent:
  assumes "\<forall>r\<in>set (records d). providedKey r \<noteq> k"
  shows "findProviders d k = (if reachable d then Inr [] else Inl DirectoryUnreachable)"
proof -
  from assms have "filter (\<lambda>r. providedKey r = k \<and> clock d < expiry r) (records d) = []"
    by (simp add: filter_empty_conv)
  then show ?thesis by (simp add: findProviders_def)
qed

text \<open>
  C7. After any history of the directory in which the key was never announced, a lookup
  of the key returns the empty sequence; the lookup is an error exactly when the
  directory cannot be reached, and that error is not the empty result.
\<close>

theorem unannounced_key_is_empty:
  assumes "never_announced k es"
  shows "findProviders (run_directory (empty_directory t) es) k =
      (if reachable (run_directory (empty_directory t) es) then Inr []
       else Inl DirectoryUnreachable) \<and>
    (\<forall>k'. (\<exists>err. findProviders (run_directory (empty_directory t) es) k' = Inl err) =
      (\<not> reachable (run_directory (empty_directory t) es)))"
proof -
  have "\<forall>r\<in>set (records (empty_directory t)). providedKey r \<noteq> k"
    by (simp add: empty_directory_def)
  from run_keeps_key_absent [OF assms this] findProviders_absent
  have "findProviders (run_directory (empty_directory t) es) k =
      (if reachable (run_directory (empty_directory t) es) then Inr []
       else Inl DirectoryUnreachable)"
    by blast
  moreover have "\<forall>k'. (\<exists>err. findProviders (run_directory (empty_directory t) es) k' = Inl err) =
      (\<not> reachable (run_directory (empty_directory t) es))"
    by (simp add: findProviders_def)
  ultimately show ?thesis by blast
qed

theorem unannounced_key_is_empty_witness:
  "never_announced ''ffff'' [Announce peerA fileF, Elapse 10] \<and>
   findProviders (run_directory (empty_directory 3600) [Announce peerA fileF, Elapse 10]) ''ffff'' =
     Inr [] \<and>
   never_announced ''ffff'' [Announce peerA fileF, Connectivity False] \<and>
   findProviders (run_directory (empty_directory 3600) [Announce peerA fileF, Connectivity False])
     ''ffff'' = Inl DirectoryUnreachable"
proof -
  have n: "never_announced ''ffff'' [Announce peerA fileF, Elapse 10]"
    by (simp add: never_announced_def fileF_def)
  have n': "never_announced ''ffff'' [Announce peerA fileF, Connectivity False]"
    by (simp add: never_announced_def fileF_def)
  from unannounced_key_is_empty [OF n, of 3600] unannounced_key_is_empty [OF n', of 3600] n n'
  show ?thesis
    by (simp add: empty_directory_def announce_def Let_def)
qed

subsection \<open>The linear fallback of fetch\<close>






text \<open>When the directory cannot be reached, no provider is attempted and fetch fails with
  the error of the lookup.\<close>

lemma fetch_directory_failure:
  "findProviders d k = Inl e \<Longrightarrow> fetch net d budget k = ([], Inl e)"
  by (simp add: fetch_def)



subsection \<open>Duplicate deliveries\<close>

lemma one_match:
  "distinct (map f xs) \<Longrightarrow> a \<in> f ` set xs \<Longrightarrow> length (filter (\<lambda>y. f y = a) xs) = 1"
  by (induction xs) (auto simp: filter_empty_conv image_iff)

lemma apply_twice:
  assumes "message_key m' = message_key m" and "groupId m' = groupId m"
  shows "apply_message m' (apply_message m reg) = apply_message m reg"
  using assms by (auto simp: apply_message_def split: option.splits)

text \<open>In every state of the registry, no group holds two messages with one key.\<close>

lemma step_keeps_distinct:
  assumes "\<And>g st. states reg g = Some st \<Longrightarrow> distinct (map message_key (messages st))"
    and "states (registry_step reg e) g = Some st"
  shows "distinct (map message_key (messages st))"
  using assms
  by (cases e)
     (auto simp: createGroup_def announce_member_def apply_message_def
           split: option.splits if_splits)

lemma run_keeps_distinct:
  assumes "\<And>g st. states reg g = Some st \<Longrightarrow> distinct (map message_key (messages st))"
    and "states (run_registry reg es) g = Some st"
  shows "distinct (map message_key (messages st))"
  using assms
proof (induction es arbitrary: reg g st)
  case Nil
  then show ?case by simp
next
  case (Cons e es)
  show ?case
  proof (rule Cons.IH)
    fix g' st'
    assume "states (registry_step reg e) g' = Some st'"
    with Cons.prems(1) show "distinct (map message_key (messages st'))"
      by (rule step_keeps_distinct)
  next
    from Cons.prems(2) show "states (run_registry (registry_step reg e) es) g = Some st"
      by simp
  qed
qed

lemma copies_after_apply:
  assumes "states reg (groupId m) = Some st0"
    and "distinct (map message_key (messages st0))"
  shows "\<exists>st. states (apply_message m reg) (groupId m) = Some st \<and> copies m st = 1"
proof (cases "message_key m \<in> set (map message_key (messages st0))")
  case True
  with assms(1) have "states (apply_message m reg) (groupId m) = Some st0"
    by (simp add: apply_message_def)
  moreover from True assms(2) have "copies m st0 = 1"
    by (simp add: copies_def one_match)
  ultimately show ?thesis by blast
next
  case False
  then have "filter (\<lambda>x. message_key x = message_key m) (messages st0) = []"
    by (auto simp: filter_empty_conv image_iff)
  with False assms(1) show ?thesis
    by (simp add: apply_message_def copies_def)
qed

text \<open>
  C8. In a registry that knows the group of a message, delivering the message and then
  a message with the same sender and sequence number again changes nothing the second
  time, and the state of the group then holds exactly one message with that key.
\<close>

theorem duplicate_delivery_one_copy:
  assumes "getGroupState_registry (run_registry empty_registry es) (groupId m) \<noteq> Inl NotFound"
    and "message_key m' = message_key m" and "groupId m' = groupId m"
  shows "apply_message m' (apply_message m (run_registry empty_registry es)) =
      apply_message m (run_registry empty_registry es) \<and>
    (\<exists>st. getGroupState_registry
            (apply_message m' (apply_message m (run_registry empty_registry es))) (groupId m) =
          Inr st \<and> copies m st = 1)"
proof -
  let ?reg = "run_registry empty_registry es"
  from assms(1) obtain st0 where known: "states ?reg (groupId m) = Some st0"
    by (auto simp: getGroupState_registry_def split: option.splits)
  have "\<And>g st. states empty_registry g = Some st \<Longrightarrow> distinct (map message_key (messages st))"
    by (simp add: empty_registry_def)
  from run_keeps_distinct [OF this known]
  have "distinct (map message_key (messages st0))" .
  from copies_after_apply [OF known this] obtain st
    where "states (apply_message m ?reg) (groupId m) = Some st" and "copies m st = 1"
    by blast
  then have "getGroupState_registry (apply_message m ?reg) (groupId m) = Inr st \<and> copies m st = 1"
    by (simp add: getGroupState_registry_def)
  with apply_twice [OF assms(2) assms(3), of ?reg] show ?thesis
    by auto
qed

theorem duplicate_delivery_one_copy_witness:
  "getGroupState_registry (run_registry empty_registry [Created groupG JNull]) (groupId hello) \<noteq>
     Inl NotFound \<and>
   getGroupState_registry
     (apply_message hello (apply_message hello (run_registry empty_registry [Created groupG JNull])))
     groupG = Inr \<lparr>members = [], messages = [hello]\<rparr> \<and>
   copies hello \<lparr>members = [], messages = [hello]\<rparr> = 1"
proof -
  have k: "getGroupState_registry (run_registry empty_registry [Created groupG JNull])
      (groupId hello) \<noteq> Inl NotFound"
    by (simp add: getGroupState_registry_def createGroup_def empty_registry_def hello_def)
  have e: "apply_message hello (run_registry empty_registry [Created groupG JNull]) =
      \<lparr>groups = [groupG \<mapsto> JNull], states = [groupG \<mapsto> \<lparr>members = [], messages = [hello]\<rparr>]\<rparr>"
    by (simp add: apply_message_def createGroup_def empty_registry_def hello_def)
  from duplicate_delivery_one_copy [OF k refl refl] e k show ?thesis
    by (auto simp: getGroupState_registry_def hello_def)
qed

end
